theory Spec2Isabelle
  imports Main "HOL-Library.Word"
begin

unbundle bit_operations_syntax

section \<open>The data tree and the ambient arguments\<close>

text \<open>
  The scalar codecs of \<^verbatim>\<open>src/plugins/data_parser/v0.0.41/parsers.c\<close> translate between
  native C integers and nodes of the generic data tree. A node is null, a bool, an
  \<^verbatim>\<open>int64_t\<close>, a double, a string, a list or a dictionary. The payload of a float node is
  the type parameter \<open>'f\<close>: the codecs compute with doubles through the operations
  collected in \<open>data_lib\<close> only. A dictionary keeps its keys in insertion order.
\<close>

type_synonym u8 = "8 word"
type_synonym u16 = "16 word"
type_synonym u32 = "32 word"
type_synonym u64 = "64 word"

datatype 'f data_t =
    DNull
  | DBool bool
  | DInt u64
  | DFloat 'f
  | DString string
  | DList "'f data_t list"
  | DDict "(string \<times> 'f data_t) list"

text \<open>
  Return codes. \<open>SLURM_SUCCESS\<close> is the C value 0, so the C test \<^verbatim>\<open>if (rc)\<close> is
  \<open>rc \<noteq> SLURM_SUCCESS\<close>. \<open>EINVAL\<close> is the errno the signed 32-bit parser returns for a
  value out of range (the error kind the specification calls INVALID_VALUE).
\<close>

datatype rc_t =
    SLURM_SUCCESS
  | EINVAL
  | ESLURM_DATA_CONV_FAILED
  | ESLURM_INVALID_NICE
  | ESLURM_INVALID_CORE_CNT
  | ESLURM_BAD_THREAD_PER_CORE
  | ESLURM_INVALID_TASK_MEMORY
  | ESLURM_DATA_EXPECTED_DICT
  | ESLURM_OTHER int

text \<open>
  A QoS record of the resolver list: the numeric id and the name, \<open>None\<close> for a NULL
  \<^verbatim>\<open>char *\<close>.
\<close>

record slurmdb_qos_rec_t =
  rec_id :: u32
  rec_name :: "string option"

text \<open>
  The ambient arguments \<^verbatim>\<open>args_t\<close>: the COMPLEX_VALUES flag read by
  \<^verbatim>\<open>is_complex_mode\<close>, the QoS resolver list, and the two diagnostics accumulators.
  A diagnostic keeps the format string of the source; the formatted arguments are not
  rendered.
\<close>

record args_t =
  complex_mode :: bool
  qos_list :: "slurmdb_qos_rec_t list"
  warnings :: "string list"
  errors :: "(rc_t \<times> string) list"

definition is_complex_mode :: "args_t \<Rightarrow> bool" where
  "is_complex_mode args = complex_mode args"

text \<open>
  Modelled from the spec: \<^verbatim>\<open>on_warn\<close> and \<^verbatim>\<open>on_error\<close> of events.c, which is not
  among the sources. Section 4.6: a warning is appended to the warnings collection and is
  never fatal; an error is appended to the errors collection with its error code, and the
  error kind is propagated to the caller.
\<close>

definition on_warn :: "args_t \<Rightarrow> string \<Rightarrow> args_t" where
  "on_warn args why = args\<lparr>warnings := warnings args @ [why]\<rparr>"

definition on_error :: "args_t \<Rightarrow> rc_t \<Rightarrow> string \<Rightarrow> rc_t \<times> args_t" where
  "on_error args error_code why = (error_code, args\<lparr>errors := errors args @ [(error_code, why)]\<rparr>)"

text \<open>
  \<^verbatim>\<open>_parse_error_funcname\<close> (the \<^verbatim>\<open>parse_error\<close> macro): records the error through
  \<^verbatim>\<open>on_error\<close>, ignores what that returns, and returns the error code it was given.
\<close>

definition parse_error :: "args_t \<Rightarrow> rc_t \<Rightarrow> string \<Rightarrow> rc_t \<times> args_t" where
  "parse_error args error why = (error, snd (on_error args error why))"

text \<open>
  The functions the codecs call that live outside the sources at hand (the data tree of
  src/common/data.c, libc, and Slurm helpers) are parameters, collected in one record:
  \<^item> \<open>cv_int d\<close>: what \<^verbatim>\<open>data_convert_type(d, DATA_TYPE_INT_64)\<close> makes of a node that is
    not already an integer, \<open>None\<close> when the coercion fails;
  \<^item> \<open>cv_bool d\<close>, \<open>cv_float d\<close>: likewise for \<^verbatim>\<open>DATA_TYPE_BOOL\<close> and \<^verbatim>\<open>DATA_TYPE_FLOAT\<close>;
  \<^item> \<open>cv_string d\<close>: \<^verbatim>\<open>data_get_string_converted\<close>, with its return code on failure;
  \<^item> \<open>f_isinf\<close>, \<open>f_isnan\<close>: \<^verbatim>\<open>isinf\<close> and \<^verbatim>\<open>isnan\<close>; \<open>f_to_u64\<close>, \<open>f_to_i64\<close>, \<open>f_to_u32\<close>:
    the C conversions of a double to \<^verbatim>\<open>uint64_t\<close>, to \<^verbatim>\<open>int64_t\<close> and to \<^verbatim>\<open>uint32_t\<close>;
    \<open>int_to_f\<close>: the C conversion of an integer value to a double; \<open>f_infinity\<close>: the
    double that the data tree reads the string "Infinity" as;
  \<^item> \<open>str_to_mbytes\<close>, \<open>sig_name2num\<close>, \<open>parse_time\<close>: the Slurm helpers of these names;
  \<^item> \<open>SIGRTMAX\<close>: the libc value.
\<close>

record 'f data_lib =
  cv_int :: "'f data_t \<Rightarrow> u64 option"
  cv_bool :: "'f data_t \<Rightarrow> bool option"
  cv_float :: "'f data_t \<Rightarrow> 'f option"
  cv_string :: "'f data_t \<Rightarrow> rc_t + string"
  f_isinf :: "'f \<Rightarrow> bool"
  f_isnan :: "'f \<Rightarrow> bool"
  f_to_u64 :: "'f \<Rightarrow> u64"
  f_to_i64 :: "'f \<Rightarrow> u64"
  f_to_u32 :: "'f \<Rightarrow> u32"
  int_to_f :: "int \<Rightarrow> 'f"
  f_infinity :: "'f"
  str_to_mbytes :: "string \<Rightarrow> u64"
  sig_name2num :: "string \<Rightarrow> int"
  parse_time :: "string \<Rightarrow> u64"
  SIGRTMAX :: int

section \<open>Sentinels and tag bits\<close>

text \<open>
  The constants of slurm/slurm.h, which is not among the sources. parsers.c constrains
  the sentinels through its flag tables and the self-check \<^verbatim>\<open>_check_flag_bit\<close>, which
  asserts \<^verbatim>\<open>(mask & value) == value\<close> for every entry: NO_VAL is a value under the mask
  INFINITE (\<^verbatim>\<open>NODE_STATES\<close>), as are the values 1 to 6 (\<^verbatim>\<open>PROCESS_EXIT_CODE_STATUS\<close>);
  NO_VAL16 and 1 are values under the mask INFINITE16 (\<^verbatim>\<open>PARTITION_STATES\<close>,
  \<^verbatim>\<open>ASSOC_SHARES_OBJ_WRAP_TYPE\<close>); NO_VAL64 is a value under the mask INFINITE64
  (\<^verbatim>\<open>JOB_RES_CORE_STATUS\<close>); and the comment in the 32-bit parser tells NO_VAL from the
  value that -1 rolls to. The values below are those of Slurm: INFINITE is all ones and
  NO_VAL is one less, at each width. Section 4.2 of the specification gives the two the
  other way round, which the self-check excludes. MEM_PER_CPU is the high bit of the
  64-bit memory field and CORE_SPEC_THREAD the high bit of the 16-bit specialization
  field, as the specification says. NICE_OFFSET is fixed by the source itself: the message
  of the NICE parser gives NICE_OFFSET - 3 as 2147483645.
\<close>

definition NO_VAL :: u32 where "NO_VAL = 0xFFFFFFFE"
definition INFINITE :: u32 where "INFINITE = 0xFFFFFFFF"
definition NO_VAL16 :: u16 where "NO_VAL16 = 0xFFFE"
definition INFINITE16 :: u16 where "INFINITE16 = 0xFFFF"
definition NO_VAL64 :: u64 where "NO_VAL64 = 0xFFFFFFFFFFFFFFFE"
definition INFINITE64 :: u64 where "INFINITE64 = 0xFFFFFFFFFFFFFFFF"
definition MEM_PER_CPU :: u64 where "MEM_PER_CPU = 0x8000000000000000"
definition CORE_SPEC_THREAD :: u16 where "CORE_SPEC_THREAD = 0x8000"
definition NICE_OFFSET :: u32 where "NICE_OFFSET = 0x80000000"

text \<open>
  Modelled from the spec: \<^verbatim>\<open>data_convert_type\<close> of src/common/data.c, which is not
  among the sources. Section 6.1: an in-place coercion with a result status. A node that
  already has the requested type is left as it is; any other node becomes what the
  library's coercion makes of it, and stays unchanged when the coercion fails. Section
  4.2: the NO_VAL-wrapped numerics accept the string "Infinity" as the infinite value;
  their parsers in parsers.c have no case for that string and hand every string to this
  coercion, so the coercion to an integer reads "Infinity" as INFINITE64 and the coercion
  to a float reads it as the library's infinity. The result is the node after the call;
  the C test \<^verbatim>\<open>== DATA_TYPE_INT_64\<close> is the test that this node is a \<open>DInt\<close>.
\<close>

definition data_convert_int :: "'f data_lib \<Rightarrow> 'f data_t \<Rightarrow> 'f data_t" where
  "data_convert_int L d =
     (case d of
        DInt n \<Rightarrow> DInt n
      | DString str \<Rightarrow>
          if str = ''Infinity'' then DInt INFINITE64
          else (case cv_int L d of Some n \<Rightarrow> DInt n | None \<Rightarrow> d)
      | _ \<Rightarrow> (case cv_int L d of Some n \<Rightarrow> DInt n | None \<Rightarrow> d))"

definition data_convert_bool :: "'f data_lib \<Rightarrow> 'f data_t \<Rightarrow> 'f data_t" where
  "data_convert_bool L d =
     (case d of
        DBool b \<Rightarrow> DBool b
      | _ \<Rightarrow> (case cv_bool L d of Some b \<Rightarrow> DBool b | None \<Rightarrow> d))"

definition data_convert_float :: "'f data_lib \<Rightarrow> 'f data_t \<Rightarrow> 'f data_t" where
  "data_convert_float L d =
     (case d of
        DFloat v \<Rightarrow> DFloat v
      | DString str \<Rightarrow>
          if str = ''Infinity'' then DFloat (f_infinity L)
          else (case cv_float L d of Some v \<Rightarrow> DFloat v | None \<Rightarrow> d)
      | _ \<Rightarrow> (case cv_float L d of Some v \<Rightarrow> DFloat v | None \<Rightarrow> d))"


section \<open>Plain integer and boolean codecs\<close>

text \<open>
  Every parser takes the current content of its destination and returns the return code,
  the content of the destination afterwards, and the ambient arguments afterwards. A
  parser that does not write returns the destination it was given. Every dumper takes the
  native value and the destination node and returns the return code, the node afterwards
  and the ambient arguments afterwards.

  Modelled from the spec: the \<^verbatim>\<open>PARSE\<close> and \<^verbatim>\<open>DUMP\<close> macros and the dispatcher of
  parsing.c behind them, which is not among the sources. Section 2: for a leaf model the
  dispatcher invokes the scalar codec, so \<^verbatim>\<open>PARSE(T, ...)\<close> is a call of \<open>parse_T\<close>
  and \<^verbatim>\<open>DUMP(T, ...)\<close> a call of \<open>dump_T\<close>.
\<close>

definition parse_INT64 :: "'f data_lib \<Rightarrow> u64 \<Rightarrow> 'f data_t \<Rightarrow> args_t \<Rightarrow> rc_t \<times> u64 \<times> args_t" where
  "parse_INT64 L dst str args =
     (case str of
        DNull \<Rightarrow> (SLURM_SUCCESS, 0, args)
      | _ \<Rightarrow>
        (case data_convert_int L str of
           DInt n \<Rightarrow> (SLURM_SUCCESS, n, args)
         | _ \<Rightarrow>
           (case parse_error args ESLURM_DATA_CONV_FAILED ''Expected integer but got %pd'' of
              (rc, args') \<Rightarrow> (rc, dst, args'))))"

definition dump_INT64 :: "u64 \<Rightarrow> 'f data_t \<Rightarrow> args_t \<Rightarrow> rc_t \<times> 'f data_t \<times> args_t" where
  "dump_INT64 src dst args = (SLURM_SUCCESS, DInt src, args)"

definition INT32_MAX :: int where "INT32_MAX = 2147483647"
definition INT32_MIN :: int where "INT32_MIN = - 2147483648"

text \<open>
  \<^verbatim>\<open>PARSE_FUNC(INT32)\<close>. The local \<^verbatim>\<open>num\<close> is uninitialised in C; it is read only after
  the 64-bit parse has succeeded and written it, so the model starts it at 0.
\<close>

definition parse_INT32 :: "'f data_lib \<Rightarrow> u32 \<Rightarrow> 'f data_t \<Rightarrow> args_t \<Rightarrow> rc_t \<times> u32 \<times> args_t" where
  "parse_INT32 L dst str args =
     (case parse_INT64 L 0 str args of
        (rc, num, args') \<Rightarrow>
          if rc \<noteq> SLURM_SUCCESS then (rc, dst, args')
          else if sint num > INT32_MAX \<or> sint num < INT32_MIN then (EINVAL, dst, args')
          else (rc, ucast num, args'))"

definition dump_INT32 :: "u32 \<Rightarrow> 'f data_t \<Rightarrow> args_t \<Rightarrow> rc_t \<times> 'f data_t \<times> args_t" where
  "dump_INT32 src dst args = dump_INT64 (scast src) dst args"



definition parse_UINT64 :: "'f data_lib \<Rightarrow> u64 \<Rightarrow> 'f data_t \<Rightarrow> args_t \<Rightarrow> rc_t \<times> u64 \<times> args_t" where
  "parse_UINT64 L dst str args =
     (case str of
        DNull \<Rightarrow> (SLURM_SUCCESS, 0, args)
      | _ \<Rightarrow>
        (case data_convert_int L str of
           DInt n \<Rightarrow> (SLURM_SUCCESS, n, args)
         | _ \<Rightarrow> (ESLURM_DATA_CONV_FAILED, dst, args)))"

definition dump_UINT64 :: "u64 \<Rightarrow> 'f data_t \<Rightarrow> args_t \<Rightarrow> rc_t \<times> 'f data_t \<times> args_t" where
  "dump_UINT64 src dst args =
     (if src = NO_VAL64 \<or> src = INFINITE64 then (SLURM_SUCCESS, DNull, args)
      else (SLURM_SUCCESS, DInt src, args))"

definition parse_UINT32 :: "'f data_lib \<Rightarrow> u32 \<Rightarrow> 'f data_t \<Rightarrow> args_t \<Rightarrow> rc_t \<times> u32 \<times> args_t" where
  "parse_UINT32 L dst str args =
     (case str of
        DNull \<Rightarrow> (SLURM_SUCCESS, 0, args)
      | _ \<Rightarrow>
        (case data_convert_int L str of
           DInt n \<Rightarrow>
             if 0xFFFFFFFF00000000 AND n \<noteq> 0 then (SLURM_SUCCESS, NO_VAL, args)
             else (SLURM_SUCCESS, ucast n, args)
         | _ \<Rightarrow> (ESLURM_DATA_CONV_FAILED, dst, args)))"


definition parse_BOOL :: "'f data_lib \<Rightarrow> bool \<Rightarrow> 'f data_t \<Rightarrow> args_t \<Rightarrow> rc_t \<times> bool \<times> args_t" where
  "parse_BOOL L b src args =
     (case data_convert_bool L src of
        DBool v \<Rightarrow> (SLURM_SUCCESS, v, args)
      | _ \<Rightarrow> (ESLURM_DATA_CONV_FAILED, b, args))"

definition dump_BOOL :: "bool \<Rightarrow> 'f data_t \<Rightarrow> args_t \<Rightarrow> rc_t \<times> 'f data_t \<times> args_t" where
  "dump_BOOL b dst args = (SLURM_SUCCESS, DBool b, args)"


definition dump_BOOL16 :: "u16 \<Rightarrow> 'f data_t \<Rightarrow> args_t \<Rightarrow> rc_t \<times> 'f data_t \<times> args_t" where
  "dump_BOOL16 b dst args = (SLURM_SUCCESS, DBool (b \<noteq> 0), args)"



section \<open>The composite engine\<close>

text \<open>
  Modelled from the spec: the dictionary operations of src/common/data.c (section 6.1:
  insert at key, get at key), which is not among the sources. A key of a field table such
  as \<^verbatim>\<open>"required/memory_per_cpu"\<close> is a path; it is kept as the list of its components.
  Setting a key that the dictionary already has replaces its value in place; a new key is
  appended.
\<close>

fun data_key_set :: "string \<Rightarrow> 'f data_t \<Rightarrow> (string \<times> 'f data_t) list \<Rightarrow> (string \<times> 'f data_t) list" where
  "data_key_set k v [] = [(k, v)]"
| "data_key_set k v ((k', v') # d) =
     (if k = k' then (k, v) # d else (k', v') # data_key_set k v d)"

fun sub_dict :: "'f data_t option \<Rightarrow> (string \<times> 'f data_t) list" where
  "sub_dict (Some (DDict kv)) = kv"
| "sub_dict _ = []"

fun data_define_dict_path :: "string list \<Rightarrow> 'f data_t \<Rightarrow> (string \<times> 'f data_t) list \<Rightarrow> (string \<times> 'f data_t) list" where
  "data_define_dict_path [] v d = d"
| "data_define_dict_path [k] v d = data_key_set k v d"
| "data_define_dict_path (k # k2 # ks) v d =
     data_key_set k (DDict (data_define_dict_path (k2 # ks) v (sub_dict (map_of d k)))) d"

fun data_resolve_dict_path :: "string list \<Rightarrow> 'f data_t \<Rightarrow> 'f data_t option" where
  "data_resolve_dict_path [] d = Some d"
| "data_resolve_dict_path (k # ks) (DDict kv) =
     (case map_of kv k of None \<Rightarrow> None | Some v \<Rightarrow> data_resolve_dict_path ks v)"
| "data_resolve_dict_path (k # ks) _ = None"

text \<open>
  Modelled from the spec: the ARRAY model of parsing.c, which is not among the sources.
  Section 4.4. A linked field has its key and, in place of the byte offset and the type
  id of the C table, a parser and a dumper that work on the enclosing struct \<open>'s\<close>. None of
  the tables modelled below declares a required, removed or skipped field, so those steps
  are not modelled.

  Parsing expects a dictionary and otherwise fails with DATA_EXPECTED_DICT; it looks up
  each linked field's key in field order, leaves the struct as it is for an absent key
  and invokes the field's parser for a present one. It continues after a field's error
  and returns the first error code. Dumping iterates the field list in order and invokes
  each field's dumper into a fresh node at the field's key.
\<close>

datatype ('s, 'f) linked_field =
  Linked_Field
    (key: "string list")
    (field_parse: "'f data_lib \<Rightarrow> 's \<Rightarrow> 'f data_t \<Rightarrow> args_t \<Rightarrow> rc_t \<times> 's \<times> args_t")
    (field_dump: "'f data_lib \<Rightarrow> 's \<Rightarrow> 'f data_t \<Rightarrow> args_t \<Rightarrow> rc_t \<times> 'f data_t \<times> args_t")

fun parse_fields :: "'f data_lib \<Rightarrow> ('s, 'f) linked_field list \<Rightarrow> 's \<Rightarrow> 'f data_t \<Rightarrow> args_t \<Rightarrow> rc_t \<times> 's \<times> args_t" where
  "parse_fields L [] s src args = (SLURM_SUCCESS, s, args)"
| "parse_fields L (p # ps) s src args =
     (case (case data_resolve_dict_path (key p) src of
              None \<Rightarrow> (SLURM_SUCCESS, s, args)
            | Some v \<Rightarrow> field_parse p L s v args) of
        (rc1, s1, args1) \<Rightarrow>
          (case parse_fields L ps s1 src args1 of
             (rc2, s2, args2) \<Rightarrow> ((if rc1 \<noteq> SLURM_SUCCESS then rc1 else rc2), s2, args2)))"

definition parse_array :: "'f data_lib \<Rightarrow> ('s, 'f) linked_field list \<Rightarrow> 's \<Rightarrow> 'f data_t \<Rightarrow> args_t \<Rightarrow> rc_t \<times> 's \<times> args_t" where
  "parse_array L parser s src args =
     (case src of
        DDict kv \<Rightarrow> parse_fields L parser s src args
      | _ \<Rightarrow>
        (case on_error args ESLURM_DATA_EXPECTED_DICT ''Expected dictionary'' of
           (rc, args') \<Rightarrow> (rc, s, args')))"

fun dump_fields :: "'f data_lib \<Rightarrow> ('s, 'f) linked_field list \<Rightarrow> 's \<Rightarrow> (string \<times> 'f data_t) list \<Rightarrow> args_t \<Rightarrow> rc_t \<times> (string \<times> 'f data_t) list \<times> args_t" where
  "dump_fields L [] s d args = (SLURM_SUCCESS, d, args)"
| "dump_fields L (p # ps) s d args =
     (case field_dump p L s DNull args of
        (rc1, v, args1) \<Rightarrow>
          (case dump_fields L ps s (data_define_dict_path (key p) v d) args1 of
             (rc2, d2, args2) \<Rightarrow> ((if rc1 \<noteq> SLURM_SUCCESS then rc1 else rc2), d2, args2)))"

definition dump_array :: "'f data_lib \<Rightarrow> ('s, 'f) linked_field list \<Rightarrow> 's \<Rightarrow> 'f data_t \<Rightarrow> args_t \<Rightarrow> rc_t \<times> 'f data_t \<times> args_t" where
  "dump_array L parser s dst args =
     (case dump_fields L parser s [] args of (rc, d, args') \<Rightarrow> (rc, DDict d, args'))"

section \<open>NO_VAL-wrapped numbers\<close>

text \<open>
  The C structs \<^verbatim>\<open>UINT64_NO_VAL_t\<close>, \<^verbatim>\<open>UINT32_NO_VAL_t\<close>, \<^verbatim>\<open>UINT16_NO_VAL_t\<close> and
  \<^verbatim>\<open>INT64_NO_VAL_t\<close>: the fields \<^verbatim>\<open>set\<close>, \<^verbatim>\<open>infinite\<close> and \<^verbatim>\<open>number\<close>, which differ in
  the type of the number only. The initialiser \<^verbatim>\<open>{0}\<close> is \<open>no_val_zero\<close>.
\<close>

record 'n no_val_t =
  set_flag :: bool
  infinite_flag :: bool
  number :: 'n

definition no_val_zero :: "('n::zero) no_val_t" where
  "no_val_zero = \<lparr>set_flag = False, infinite_flag = False, number = 0\<rparr>"

text \<open>
  The field tables \<^verbatim>\<open>PARSER_ARRAY(UINT64_NO_VAL_STRUCT)\<close> and its three siblings: the keys
  "set" and "infinite" with the BOOL codec and the key "number" with the plain codec of
  the number's width.
\<close>

definition no_val_struct ::
  "('f data_lib \<Rightarrow> 'n \<Rightarrow> 'f data_t \<Rightarrow> args_t \<Rightarrow> rc_t \<times> 'n \<times> args_t) \<Rightarrow>
   ('n \<Rightarrow> 'f data_t \<Rightarrow> args_t \<Rightarrow> rc_t \<times> 'f data_t \<times> args_t) \<Rightarrow>
   ('n no_val_t, 'f) linked_field list" where
  "no_val_struct parse_number dump_number =
     [Linked_Field [''set'']
        (\<lambda>L s v a. case parse_BOOL L (set_flag s) v a of (rc, b, a') \<Rightarrow> (rc, s\<lparr>set_flag := b\<rparr>, a'))
        (\<lambda>L s dst a. dump_BOOL (set_flag s) dst a),
      Linked_Field [''infinite'']
        (\<lambda>L s v a. case parse_BOOL L (infinite_flag s) v a of (rc, b, a') \<Rightarrow> (rc, s\<lparr>infinite_flag := b\<rparr>, a'))
        (\<lambda>L s dst a. dump_BOOL (infinite_flag s) dst a),
      Linked_Field [''number'']
        (\<lambda>L s v a. case parse_number L (number s) v a of (rc, n, a') \<Rightarrow> (rc, s\<lparr>number := n\<rparr>, a'))
        (\<lambda>L s dst a. dump_number (number s) dst a)]"

definition PARSER_ARRAY_UINT64_NO_VAL_STRUCT :: "(u64 no_val_t, 'f) linked_field list" where
  "PARSER_ARRAY_UINT64_NO_VAL_STRUCT = no_val_struct parse_UINT64 dump_UINT64"




text \<open>
  What the parsers of the \<^verbatim>\<open>*_NO_VAL\<close> codecs store once the struct has been parsed. The
  C chain has a fourth branch, which no struct reaches.
\<close>

definition no_val_struct_value :: "'n \<Rightarrow> 'n \<Rightarrow> 'n no_val_t \<Rightarrow> 'n" where
  "no_val_struct_value v_infinite v_unset istruct =
     (if infinite_flag istruct then v_infinite
      else if \<not> set_flag istruct then v_unset
      else number istruct)"

text \<open>
  \<^verbatim>\<open>PARSE_FUNC(UINT64_NO_VAL)\<close>. On a float node the C code calls
  \<^verbatim>\<open>PARSE_FUNC(FLOAT64_NO_VAL)\<close>, which stores the node's double and succeeds. The node
  types NONE and MAX, on which the C code aborts, are not values of \<open>data_t\<close>.
\<close>

definition parse_UINT64_NO_VAL :: "'f data_lib \<Rightarrow> u64 \<Rightarrow> 'f data_t \<Rightarrow> args_t \<Rightarrow> rc_t \<times> u64 \<times> args_t" where
  "parse_UINT64_NO_VAL L dst src args =
     (case src of
        DNull \<Rightarrow> (SLURM_SUCCESS, NO_VAL64, args)
      | DFloat v \<Rightarrow>
          (SLURM_SUCCESS,
           (if f_isinf L v then INFINITE64 else if f_isnan L v then NO_VAL64 else f_to_u64 L v),
           args)
      | DDict kv \<Rightarrow>
          (case parse_array L PARSER_ARRAY_UINT64_NO_VAL_STRUCT no_val_zero src args of
             (rc, istruct, args') \<Rightarrow>
               if rc \<noteq> SLURM_SUCCESS then (rc, dst, args')
               else (rc, no_val_struct_value INFINITE64 NO_VAL64 istruct, args'))
      | DString str \<Rightarrow>
          (case data_convert_int L src of
             DInt n \<Rightarrow> parse_UINT64 L dst (DInt n) args
           | _ \<Rightarrow>
             (case parse_error args ESLURM_DATA_CONV_FAILED ''Expected integer but got %pd'' of
                (rc, args') \<Rightarrow> (rc, dst, args')))
      | DInt n \<Rightarrow> parse_UINT64 L dst src args
      | _ \<Rightarrow>
          (case parse_error args ESLURM_DATA_CONV_FAILED ''Expected integer but got %pd'' of
             (rc, args') \<Rightarrow> (rc, dst, args')))"

definition dump_UINT64_NO_VAL :: "'f data_lib \<Rightarrow> u64 \<Rightarrow> 'f data_t \<Rightarrow> args_t \<Rightarrow> rc_t \<times> 'f data_t \<times> args_t" where
  "dump_UINT64_NO_VAL L src dst args =
     (if is_complex_mode args then
        (if src = INFINITE64 then (SLURM_SUCCESS, DString ''Infinity'', args)
         else if src = NO_VAL64 then (SLURM_SUCCESS, DNull, args)
         else (SLURM_SUCCESS, DInt src, args))
      else
        dump_array L PARSER_ARRAY_UINT64_NO_VAL_STRUCT
          (if src = INFINITE64 then no_val_zero\<lparr>infinite_flag := True\<rparr>
           else if src = NO_VAL64 then no_val_zero
           else no_val_zero\<lparr>set_flag := True, number := src\<rparr>)
          dst args)"





definition parse_UINT16_NO_VAL :: "'f data_lib \<Rightarrow> u16 \<Rightarrow> 'f data_t \<Rightarrow> args_t \<Rightarrow> rc_t \<times> u16 \<times> args_t" where
  "parse_UINT16_NO_VAL L dst src args =
     (case parse_UINT64_NO_VAL L 0 src args of
        (rc, num, args') \<Rightarrow>
          if rc \<noteq> SLURM_SUCCESS then (rc, dst, args')
          else if num = NO_VAL64 then (rc, NO_VAL16, args')
          else if num \<ge> ucast NO_VAL then (rc, INFINITE16, args')
          else (rc, ucast num, args'))"











section \<open>Memory per CPU and memory per node\<close>

text \<open>
  \<^verbatim>\<open>PARSE_FUNC(MEM_PER_CPUS)\<close>, \<^verbatim>\<open>PARSE_FUNC(MEM_PER_NODE)\<close> and their dumpers work on one
  64-bit field, tagged by the bit MEM_PER_CPU. The local \<^verbatim>\<open>cpu_mem\<close> starts at NO_VAL64.
\<close>

definition mem_value :: "u64 \<Rightarrow> u64 \<Rightarrow> u64 \<Rightarrow> args_t \<Rightarrow> rc_t \<times> u64 \<times> args_t" where
  "mem_value tag mem m args =
     (if m = NO_VAL64 then (SLURM_SUCCESS, NO_VAL64, args)
      else if m = INFINITE64 then (SLURM_SUCCESS, 0, args)
      else if m \<ge> MEM_PER_CPU then
        (case parse_error args ESLURM_INVALID_TASK_MEMORY
                ''Memory value %lu equal or larger than %lu'' of
           (rc, args') \<Rightarrow> (rc, mem, args'))
      else (SLURM_SUCCESS, tag OR m, args))"

definition parse_MEM_PER_CPUS :: "'f data_lib \<Rightarrow> u64 \<Rightarrow> 'f data_t \<Rightarrow> args_t \<Rightarrow> rc_t \<times> u64 \<times> args_t" where
  "parse_MEM_PER_CPUS L mem src args =
     (case src of
        DNull \<Rightarrow> (SLURM_SUCCESS, NO_VAL64, args)
      | DString str \<Rightarrow>
          if str_to_mbytes L str = NO_VAL64 then
            (case parse_error args ESLURM_DATA_CONV_FAILED ''Invalid formatted memory size: %s'' of
               (rc, args') \<Rightarrow> (rc, mem, args'))
          else mem_value MEM_PER_CPU mem (str_to_mbytes L str) args
      | _ \<Rightarrow>
          (case parse_UINT64_NO_VAL L NO_VAL64 src args of
             (rc, cpu_mem, args') \<Rightarrow>
               if rc \<noteq> SLURM_SUCCESS then (rc, mem, args')
               else mem_value MEM_PER_CPU mem cpu_mem args'))"

definition dump_MEM_PER_CPUS :: "'f data_lib \<Rightarrow> u64 \<Rightarrow> 'f data_t \<Rightarrow> args_t \<Rightarrow> rc_t \<times> 'f data_t \<times> args_t" where
  "dump_MEM_PER_CPUS L mem dst args =
     dump_UINT64_NO_VAL L
       (if mem AND MEM_PER_CPU \<noteq> 0 then mem AND NOT MEM_PER_CPU else NO_VAL64) dst args"

definition parse_MEM_PER_NODE :: "'f data_lib \<Rightarrow> u64 \<Rightarrow> 'f data_t \<Rightarrow> args_t \<Rightarrow> rc_t \<times> u64 \<times> args_t" where
  "parse_MEM_PER_NODE L mem src args =
     (case src of
        DNull \<Rightarrow> (SLURM_SUCCESS, NO_VAL64, args)
      | DString str \<Rightarrow>
          if str_to_mbytes L str = NO_VAL64 then
            (case parse_error args ESLURM_DATA_CONV_FAILED ''Invalid formatted memory size: %s'' of
               (rc, args') \<Rightarrow> (rc, mem, args'))
          else mem_value 0 mem (str_to_mbytes L str) args
      | _ \<Rightarrow>
          (case parse_UINT64_NO_VAL L NO_VAL64 src args of
             (rc, node_mem, args') \<Rightarrow>
               if rc \<noteq> SLURM_SUCCESS then (rc, mem, args')
               else mem_value 0 mem node_mem args'))"

definition dump_MEM_PER_NODE :: "'f data_lib \<Rightarrow> u64 \<Rightarrow> 'f data_t \<Rightarrow> args_t \<Rightarrow> rc_t \<times> 'f data_t \<times> args_t" where
  "dump_MEM_PER_NODE L mem dst args =
     dump_UINT64_NO_VAL L
       (if mem AND MEM_PER_CPU = 0 then mem else NO_VAL64) dst args"

text \<open>
  The two overloaded entries of \<^verbatim>\<open>PARSER_ARRAY(JOB)\<close> on the field \<^verbatim>\<open>req_mem\<close>, in the
  order of the table. The struct is reduced to this one field.
\<close>

definition PARSER_ARRAY_JOB_req_mem :: "(u64, 'f) linked_field list" where
  "PARSER_ARRAY_JOB_req_mem =
     [Linked_Field [''required'', ''memory_per_cpu''] parse_MEM_PER_CPUS dump_MEM_PER_CPUS,
      Linked_Field [''required'', ''memory_per_node''] parse_MEM_PER_NODE dump_MEM_PER_NODE]"

section \<open>Core and thread specialization\<close>

definition parse_CORE_SPEC :: "'f data_lib \<Rightarrow> u16 \<Rightarrow> 'f data_t \<Rightarrow> args_t \<Rightarrow> rc_t \<times> u16 \<times> args_t" where
  "parse_CORE_SPEC L spec src args =
     (case data_convert_int L src of
        DInt n \<Rightarrow>
          if sint n \<ge> uint CORE_SPEC_THREAD then
            (case parse_error args ESLURM_INVALID_CORE_CNT ''Invalid core specification %ld >= %d'' of
               (rc, args') \<Rightarrow> (rc, spec, args'))
          else if sint n \<le> 0 then
            (case parse_error args ESLURM_INVALID_CORE_CNT ''Invalid core specification %ld <= 0'' of
               (rc, args') \<Rightarrow> (rc, spec, args'))
          else (SLURM_SUCCESS, ucast n, args)
      | _ \<Rightarrow>
          (case parse_error args ESLURM_DATA_CONV_FAILED
                  ''Expected integer for core specification but got %pd'' of
             (rc, args') \<Rightarrow> (rc, spec, args')))"

definition dump_CORE_SPEC :: "u16 \<Rightarrow> 'f data_t \<Rightarrow> args_t \<Rightarrow> rc_t \<times> 'f data_t \<times> args_t" where
  "dump_CORE_SPEC mem dst args =
     (if mem AND CORE_SPEC_THREAD = 0 then (SLURM_SUCCESS, DInt (ucast mem), args)
      else (SLURM_SUCCESS, DInt 0, args))"

definition parse_THREAD_SPEC :: "'f data_lib \<Rightarrow> u16 \<Rightarrow> 'f data_t \<Rightarrow> args_t \<Rightarrow> rc_t \<times> u16 \<times> args_t" where
  "parse_THREAD_SPEC L spec src args =
     (case data_convert_int L src of
        DInt n \<Rightarrow>
          if sint n \<ge> uint CORE_SPEC_THREAD then
            (case parse_error args ESLURM_BAD_THREAD_PER_CORE ''Invalid thread specification %ld >= %d'' of
               (rc, args') \<Rightarrow> (rc, spec, args'))
          else if sint n \<le> 0 then
            (case parse_error args ESLURM_BAD_THREAD_PER_CORE ''Invalid thread specification %ld<= 0'' of
               (rc, args') \<Rightarrow> (rc, spec, args'))
          else (SLURM_SUCCESS, ucast n OR CORE_SPEC_THREAD, args)
      | _ \<Rightarrow>
          (case parse_error args ESLURM_DATA_CONV_FAILED
                  ''Expected integer for thread specification but got %pd'' of
             (rc, args') \<Rightarrow> (rc, spec, args')))"

definition dump_THREAD_SPEC :: "u16 \<Rightarrow> 'f data_t \<Rightarrow> args_t \<Rightarrow> rc_t \<times> 'f data_t \<times> args_t" where
  "dump_THREAD_SPEC mem dst args =
     (if mem AND CORE_SPEC_THREAD \<noteq> 0 then
        (SLURM_SUCCESS, DInt (ucast (mem AND NOT CORE_SPEC_THREAD)), args)
      else (SLURM_SUCCESS, DInt 0, args))"

section \<open>Nice\<close>

text \<open>
  \<^verbatim>\<open>PARSE_FUNC(NICE)\<close>. The local \<^verbatim>\<open>nice\<close> is an \<^verbatim>\<open>int32_t\<close>; \<^verbatim>\<open>llabs(nice)\<close> is the
  absolute value of its signed reading, compared with NICE_OFFSET - 3 as integers. The
  sum \<^verbatim>\<open>nice + NICE_OFFSET\<close> is an unsigned 32-bit sum, which wraps. The parser takes
  the return value of \<^verbatim>\<open>on_error\<close> as its own.
\<close>

definition parse_NICE :: "'f data_lib \<Rightarrow> u32 \<Rightarrow> 'f data_t \<Rightarrow> args_t \<Rightarrow> rc_t \<times> u32 \<times> args_t" where
  "parse_NICE L nice_ptr src args =
     (case parse_INT32 L 0 src args of
        (rc, nice, args') \<Rightarrow>
          if rc = EINVAL \<or> (rc = SLURM_SUCCESS \<and> \<bar>sint nice\<bar> > uint NICE_OFFSET - 3) then
            (case on_error args' ESLURM_INVALID_NICE ''Nice value not within +/- 2147483645'' of
               (rc', args'') \<Rightarrow> (rc', nice_ptr, args''))
          else if rc = SLURM_SUCCESS then (rc, nice + NICE_OFFSET, args')
          else (rc, nice_ptr, args'))"

text \<open>
  \<^verbatim>\<open>DUMP_FUNC(NICE)\<close> reads the field as \<^verbatim>\<open>uint32_t\<close> into an \<^verbatim>\<open>int64_t\<close> and subtracts
  NICE_OFFSET there.
\<close>

definition dump_NICE :: "u32 \<Rightarrow> 'f data_t \<Rightarrow> args_t \<Rightarrow> rc_t \<times> 'f data_t \<times> args_t" where
  "dump_NICE obj dst args =
     (if (ucast obj :: u64) \<noteq> ucast NO_VAL \<and> (ucast obj :: u64) \<noteq> ucast NICE_OFFSET then
        (SLURM_SUCCESS, DInt (ucast obj - ucast NICE_OFFSET), args)
      else (SLURM_SUCCESS, DInt 0, args))"

section \<open>Signal\<close>

text \<open>
  \<^verbatim>\<open>PARSE_FUNC(SIGNAL)\<close>. An integer node is stored and the parser returns at once. The
  name path assigns the value of \<^verbatim>\<open>sig_name2num\<close> to the 16-bit field before testing it;
  \<^verbatim>\<open>rc\<close> is still the success of the string conversion where the unknown name is
  reported and where the parser returns at its end.
\<close>

definition parse_SIGNAL :: "'f data_lib \<Rightarrow> u16 \<Rightarrow> 'f data_t \<Rightarrow> args_t \<Rightarrow> rc_t \<times> u16 \<times> args_t" where
  "parse_SIGNAL L sig src args =
     (case data_convert_int L src of
        DInt n \<Rightarrow> (SLURM_SUCCESS, ucast n, args)
      | _ \<Rightarrow>
        (case cv_string L src of
           Inl rc \<Rightarrow>
             (case parse_error args rc ''expected string but got %pd'' of
                (rc', args') \<Rightarrow> (rc', sig, args'))
         | Inr str \<Rightarrow>
             if str = [] then (SLURM_SUCCESS, NO_VAL16, args)
             else if (word_of_int (sig_name2num L str) :: u16) = 0 then
               (case parse_error args SLURM_SUCCESS ''Unknown signal %s'' of
                  (rc', args') \<Rightarrow> (rc', 0, args'))
             else if uint (word_of_int (sig_name2num L str) :: u16) < 1
                     \<or> uint (word_of_int (sig_name2num L str) :: u16) \<ge> SIGRTMAX L then
               (SLURM_SUCCESS, word_of_int (sig_name2num L str),
                on_warn args ''Non-standard signal number: %u'')
             else (SLURM_SUCCESS, word_of_int (sig_name2num L str), args)))"

section \<open>QoS id\<close>

text \<open>Decimal rendering of an unsigned number, for the format \<^verbatim>\<open>"%u"\<close>.\<close>

fun dec_string :: "nat \<Rightarrow> string" where
  "dec_string n =
     (if n < 10 then [char_of (48 + n)]
      else dec_string (n div 10) @ [char_of (48 + n mod 10)])"

text \<open>
  Modelled from the spec: \<^verbatim>\<open>slurmdb_find_qos_in_list\<close> of slurmdb_defs.c, which is not
  among the sources. Section 4.7 and the comment at the call: the QoS is found by its id in
  the list; \<^verbatim>\<open>list_find_first\<close> returns the first match.
\<close>

definition find_qos :: "slurmdb_qos_rec_t list \<Rightarrow> u32 \<Rightarrow> slurmdb_qos_rec_t option" where
  "find_qos l qos_id = List.find (\<lambda>q. rec_id q = qos_id) l"

text \<open>
  \<^verbatim>\<open>DUMP_FUNC(QOS_ID)\<close>. The resolver \<open>resolver\<close> stands for the call of
  \<^verbatim>\<open>list_find_first\<close> on the list of the ambient arguments; it is a parameter of
  \<open>dump_QOS_ID_with\<close> so that one can see where the dumper calls it.
\<close>

definition dump_QOS_ID_with ::
  "(slurmdb_qos_rec_t list \<Rightarrow> u32 \<Rightarrow> slurmdb_qos_rec_t option) \<Rightarrow>
   u32 \<Rightarrow> 'f data_t \<Rightarrow> args_t \<Rightarrow> rc_t \<times> 'f data_t \<times> args_t" where
  "dump_QOS_ID_with resolver qos_id dst args =
     (if qos_id = 0 \<or> qos_id = INFINITE then
        (if \<not> is_complex_mode args then (SLURM_SUCCESS, DString [], args)
         else (SLURM_SUCCESS, dst, args))
      else
        (case resolver (qos_list args) qos_id of
           Some qos \<Rightarrow>
             (case rec_name qos of
                Some (c # cs) \<Rightarrow> (SLURM_SUCCESS, DString (c # cs), args)
              | _ \<Rightarrow>
                if rec_id qos \<noteq> 0 then
                  (SLURM_SUCCESS, DString (dec_string (unat (rec_id qos))), args)
                else if \<not> is_complex_mode args then
                  (SLURM_SUCCESS, DString ''Unknown'',
                   on_warn args ''Unknown QOS with id#%u. Unable to dump QOS.'')
                else (SLURM_SUCCESS, dst, args))
         | None \<Rightarrow>
             if \<not> is_complex_mode args then
               (SLURM_SUCCESS, DString ''Unknown'',
                on_warn args ''Unknown QOS with id#%u. Unable to dump QOS.'')
             else (SLURM_SUCCESS, dst, args)))"

definition dump_QOS_ID :: "u32 \<Rightarrow> 'f data_t \<Rightarrow> args_t \<Rightarrow> rc_t \<times> 'f data_t \<times> args_t" where
  "dump_QOS_ID = dump_QOS_ID_with find_qos"

section \<open>The purge sweep of the burst-buffer plugin\<close>

text \<open>
  \<^verbatim>\<open>src/plugins/burst_buffer/generic/burst_buffer_generic.c\<close>. An allocation record
  \<^verbatim>\<open>bb_alloc_t\<close>; the \<^verbatim>\<open>next\<close> pointer makes a bucket of the hash table a list of
  records. The state of the purge routine is the hash table \<^verbatim>\<open>bb_hash\<close> (BB_HASH_SIZE
  buckets) and the function's static variable \<^verbatim>\<open>time_last_purge\<close>, which starts at 0.
  Times are \<^verbatim>\<open>time_t\<close> seconds; \<^verbatim>\<open>difftime\<close> is their difference.
\<close>

record bb_alloc_t =
  array_job_id :: u32
  array_task_id :: u32
  job_id :: u32
  name :: "string option"
  size_bb :: u32
  state :: u16
  user_id :: u32

record purge_state =
  time_last_purge :: int
  bb_hash :: "bb_alloc_t list list"

definition BB_HASH_SIZE :: nat where "BB_HASH_SIZE = 100"

text \<open>
  The inner loop over one bucket: the first record with a job id, in a state at or past
  STAGED_OUT, whose job is no longer known is unlinked, and the loop over this bucket
  ends. \<open>find_job_record\<close> (slurmctld) and the constant \<open>BB_STATE_STAGED_OUT\<close> (slurm.h) are
  parameters.
\<close>

fun purge_bucket :: "(u32 \<Rightarrow> bool) \<Rightarrow> u16 \<Rightarrow> bb_alloc_t list \<Rightarrow> bb_alloc_t list" where
  "purge_bucket find_job_record BB_STATE_STAGED_OUT [] = []"
| "purge_bucket find_job_record BB_STATE_STAGED_OUT (bb_ptr # rest) =
     (if job_id bb_ptr \<noteq> 0 \<and> state bb_ptr \<ge> BB_STATE_STAGED_OUT
         \<and> \<not> find_job_record (job_id bb_ptr)
      then rest
      else bb_ptr # purge_bucket find_job_record BB_STATE_STAGED_OUT rest)"

text \<open>
  \<^verbatim>\<open>_purge_bb_rec\<close> at the time \<open>now\<close>. The outer loop visits the buckets 0 to
  BB_HASH_SIZE - 1. The function reads \<^verbatim>\<open>time_last_purge\<close> and never assigns it.
\<close>

definition purge_bb_rec :: "(u32 \<Rightarrow> bool) \<Rightarrow> u16 \<Rightarrow> int \<Rightarrow> purge_state \<Rightarrow> purge_state" where
  "purge_bb_rec find_job_record BB_STATE_STAGED_OUT now st =
     (if now - time_last_purge st > 60 then
        st\<lparr>bb_hash :=
             map (purge_bucket find_job_record BB_STATE_STAGED_OUT) (take BB_HASH_SIZE (bb_hash st))
             @ drop BB_HASH_SIZE (bb_hash st)\<rparr>
      else st)"

section \<open>Round trips\<close>


section \<open>Concrete inputs\<close>

text \<open>
  A data-tree library whose own coercions all fail and that has no doubles, and ambient
  arguments with empty diagnostics in default and in COMPLEX_VALUES mode. The theorems
  below are instantiated on them.
\<close>

definition lib_plain :: "unit data_lib" where
  "lib_plain =
     \<lparr>cv_int = (\<lambda>d. None), cv_bool = (\<lambda>d. None), cv_float = (\<lambda>d. None),
      cv_string = (\<lambda>d. Inl ESLURM_DATA_CONV_FAILED),
      f_isinf = (\<lambda>v. False), f_isnan = (\<lambda>v. False),
      f_to_u64 = (\<lambda>v. 0), f_to_i64 = (\<lambda>v. 0), f_to_u32 = (\<lambda>v. 0),
      int_to_f = (\<lambda>k. ()), f_infinity = (),
      str_to_mbytes = (\<lambda>s. NO_VAL64), sig_name2num = (\<lambda>s. 0), parse_time = (\<lambda>s. 0),
      SIGRTMAX = 64\<rparr>"




definition args_default :: args_t where
  "args_default = \<lparr>complex_mode = False, qos_list = [], warnings = [], errors = []\<rparr>"


text \<open>
  A burst-buffer record of user 0 for the job \<open>j\<close> in the state \<open>s\<close>, and a hash table of
  BB_HASH_SIZE buckets whose bucket 0 holds the records of the jobs 1 and 2, both in the
  state 6.
\<close>

definition bb_rec :: "u32 \<Rightarrow> u16 \<Rightarrow> bb_alloc_t" where
  "bb_rec j s =
     \<lparr>array_job_id = 0, array_task_id = 0, job_id = j, name = None, size_bb = 0,
      state = s, user_id = 0\<rparr>"

definition purge_example :: purge_state where
  "purge_example = \<lparr>time_last_purge = 0, bb_hash = [bb_rec 1 6, bb_rec 2 6] # replicate 99 []\<rparr>"

section \<open>Basic facts\<close>

lemma data_convert_int_DInt [simp]: "data_convert_int L (DInt n) = DInt n"
  by (simp add: data_convert_int_def)

lemma data_convert_bool_DBool [simp]: "data_convert_bool L (DBool b) = DBool b"
  by (simp add: data_convert_bool_def)

lemma data_convert_float_DFloat [simp]: "data_convert_float L (DFloat v) = DFloat v"
  by (simp add: data_convert_float_def)

lemma data_convert_int_Infinity [simp]:
  "data_convert_int L (DString ''Infinity'') = DInt INFINITE64"
  by (simp add: data_convert_int_def)

lemma data_convert_float_Infinity [simp]:
  "data_convert_float L (DString ''Infinity'') = DFloat (f_infinity L)"
  by (simp add: data_convert_float_def)

text \<open>
  The sentinels pass the self-check of the flag tables: each value lies under its mask,
  and the sentinels of one width differ.
\<close>

lemma sentinel_self_check:
  "INFINITE AND NO_VAL = NO_VAL" "INFINITE AND 6 = 6" "INFINITE AND 1 = 1"
  "INFINITE16 AND NO_VAL16 = NO_VAL16" "INFINITE16 AND 1 = 1"
  "INFINITE64 AND NO_VAL64 = NO_VAL64"
  "INFINITE \<noteq> NO_VAL" "INFINITE16 \<noteq> NO_VAL16" "INFINITE64 \<noteq> NO_VAL64"
  by (simp_all add: INFINITE_def NO_VAL_def INFINITE16_def NO_VAL16_def INFINITE64_def
      NO_VAL64_def)

lemma high_mask_eq: "(0xFFFFFFFF00000000 :: u64) = NOT (mask 32)"
  by (simp add: mask_eq_exp_minus_1)

lemma not_mask_and_zero_iff: "(NOT (mask 32) AND (n::u64) = 0) = (take_bit 32 n = n)"
proof
  assume a: "NOT (mask 32) AND n = 0"
  have "n = (n AND mask 32) OR (n AND NOT (mask 32))"
    by (simp flip: bit.conj_disj_distrib)
  also have "\<dots> = n AND mask 32" using a by (simp add: and.commute)
  finally show "take_bit 32 n = n" by (simp add: take_bit_eq_mask)
next
  assume "take_bit 32 n = n"
  then have "n = n AND mask 32" by (simp add: take_bit_eq_mask)
  then have "NOT (mask 32) AND n = NOT (mask 32) AND (n AND mask 32)" by simp
  also have "\<dots> = 0" by (simp add: ac_simps)
  finally show "NOT (mask 32) AND n = 0" .
qed

lemma high_bits_iff: "(0xFFFFFFFF00000000 AND (n::u64) \<noteq> 0) = (drop_bit 32 n \<noteq> 0)"
  unfolding high_mask_eq not_mask_and_zero_iff
  by (simp add: take_bit_eq_self_iff_drop_bit_eq_0)

section \<open>Plain unsigned 32-bit parsing\<close>

text \<open>
  C3, as amended. The plain 32-bit unsigned parser stores 0 for a null node. For an
  integer node it stores the sentinel NO_VAL when any of the high 32 bits of the
  \<^verbatim>\<open>int64_t\<close> is set (\<open>drop_bit 32 n \<noteq> 0\<close>), and the low 32 bits otherwise; so an integer
  node that holds a 32-bit value \<open>v\<close>, zero-extended, stores \<open>v\<close> unchanged. The sentinel
  NO_VAL is not 0xFFFFFFFF, the value that -1 rolls to: it is a value under the mask
  INFINITE. All of these parses succeed and leave the diagnostics as they were.
\<close>

theorem parse_UINT32_cases:
  "parse_UINT32 L dst DNull args = (SLURM_SUCCESS, 0, args) \<and>
   parse_UINT32 L dst (DInt n) args =
     (SLURM_SUCCESS, (if drop_bit 32 n = 0 then ucast n else NO_VAL), args) \<and>
   parse_UINT32 L dst (DInt (ucast (v :: u32))) args = (SLURM_SUCCESS, v, args) \<and>
   NO_VAL \<noteq> 0xFFFFFFFF \<and> INFINITE AND NO_VAL = NO_VAL"
proof -
  have a: "parse_UINT32 L dst DNull args = (SLURM_SUCCESS, 0, args)"
    by (simp add: parse_UINT32_def)
  have b: "parse_UINT32 L dst (DInt n) args =
     (SLURM_SUCCESS, (if drop_bit 32 n = 0 then ucast n else NO_VAL), args)" for n
    using high_bits_iff [of n] by (simp add: parse_UINT32_def)
  have "drop_bit 32 (ucast v :: u64) = 0"
    by (rule bit_eqI) (auto simp add: bit_simps dest: bit_imp_le_length)
  moreover have "ucast (ucast v :: u64) = v"
    by (rule bit_word_eqI) (auto simp add: bit_simps)
  ultimately have c: "parse_UINT32 L dst (DInt (ucast v)) args = (SLURM_SUCCESS, v, args)"
    by (simp add: b)
  show ?thesis using a b c by (simp add: NO_VAL_def INFINITE_def)
qed

text \<open>
  The claim as stated names 0xFFFFFFFF as the value stored: the integer node -1, whose
  high bits are set and whose low 32 bits are 0xFFFFFFFF, stores NO_VAL, which is another
  value.
\<close>

theorem parse_UINT32_minus_one_counterexample:
  "parse_UINT32 lib_plain 0 (DInt (- 1)) args_default = (SLURM_SUCCESS, NO_VAL, args_default) \<and>
   (ucast (- 1 :: u64) :: u32) = 0xFFFFFFFF \<and>
   NO_VAL \<noteq> 0xFFFFFFFF"
proof -
  have m: "(- 1 :: u64) = 0xFFFFFFFFFFFFFFFF"
    by simp
  show ?thesis
    unfolding m by (simp add: parse_UINT32_def NO_VAL_def)
qed

section \<open>Narrowing to 16 bits\<close>

text \<open>
  C9, as amended. For the UINT16_NO_VAL codec, a plain integer node \<open>n\<close> (read as an
  unsigned 64-bit number) is stored as NO_VAL16 when \<open>n\<close> is NO_VAL64, as INFINITE16 when
  \<open>n\<close> is any other number at or above the 32-bit NO_VAL, and as \<open>n\<close> truncated modulo
  \<open>2 ^ 16\<close> in every other case, that is for every \<open>n\<close> below the 32-bit NO_VAL, those
  above 0xFFFF included. The 32-bit NO_VAL lies below 0xFFFFFFFF. The parse succeeds and
  the diagnostics stay as they were.
\<close>

theorem parse_UINT16_NO_VAL_numeric:
  "parse_UINT16_NO_VAL L dst (DInt n) args =
     (SLURM_SUCCESS,
      (if n = NO_VAL64 then NO_VAL16
       else if ucast NO_VAL \<le> n then INFINITE16
       else ucast n),
      args) \<and>
   uint (ucast n :: u16) = uint n mod 2 ^ 16 \<and>
   (ucast NO_VAL :: u64) < 0xFFFFFFFF"
  by (simp add: parse_UINT16_NO_VAL_def parse_UINT64_NO_VAL_def parse_UINT64_def NO_VAL_def
      unsigned_ucast_eq take_bit_eq_mod)

text \<open>
  The claim as stated has every \<open>n\<close> strictly between 0xFFFF and 0xFFFFFFFF truncated: the
  number 0xFFFFFFFE lies there, and it is stored as INFINITE16 and not as its low 16 bits.
\<close>

theorem parse_UINT16_NO_VAL_counterexample:
  "parse_UINT16_NO_VAL lib_plain 0 (DInt 0xFFFFFFFE) args_default =
     (SLURM_SUCCESS, INFINITE16, args_default) \<and>
   (0xFFFF :: u64) < 0xFFFFFFFE \<and> (0xFFFFFFFE :: u64) < 0xFFFFFFFF \<and>
   (ucast (0xFFFFFFFE :: u64) :: u16) \<noteq> INFINITE16"
  by (simp add: parse_UINT16_NO_VAL_def parse_UINT64_NO_VAL_def parse_UINT64_def NO_VAL_def
      NO_VAL64_def INFINITE16_def)

section \<open>Signal numbers given as integers\<close>

text \<open>
  C5. The SIGNAL parser on the integer node 4097 succeeds and stores 4097, and the ambient
  arguments come back as they were: no warning is recorded. The test for a non-standard
  signal number sits behind the early return of the integer path and is reached from the
  name path only.
\<close>

theorem parse_SIGNAL_integer_no_warning:
  "parse_SIGNAL L sig (DInt 4097) args = (SLURM_SUCCESS, 4097, args)"
  by (simp add: parse_SIGNAL_def)

text \<open>
  The name path does reach the test: a string that the data tree does not coerce to an
  integer and that \<^verbatim>\<open>sig_name2num\<close> resolves to 4097 is stored with the warning.
\<close>

lemma parse_SIGNAL_name_path_warns:
  assumes "cv_int L (DString s) = None" and "cv_string L (DString s) = Inr s" and "s \<noteq> []"
    and "s \<noteq> ''Infinity''" and "sig_name2num L s = 4097" and "SIGRTMAX L \<le> 4097"
  shows "parse_SIGNAL L sig (DString s) args =
    (SLURM_SUCCESS, 4097, on_warn args ''Non-standard signal number: %u'')"
  using assms by (simp add: parse_SIGNAL_def data_convert_int_def)

section \<open>Signed 32-bit parsing\<close>

lemma parse_INT64_alt:
  "parse_INT64 L d str args =
     (if str = DNull then (SLURM_SUCCESS, 0, args)
      else case data_convert_int L str of
             DInt n \<Rightarrow> (SLURM_SUCCESS, n, args)
           | _ \<Rightarrow> (ESLURM_DATA_CONV_FAILED, d,
                   args\<lparr>errors := errors args @ [(ESLURM_DATA_CONV_FAILED, ''Expected integer but got %pd'')]\<rparr>))"
  by (cases str; cases "data_convert_int L str")
     (simp_all add: parse_INT64_def parse_error_def on_error_def)

lemma parse_INT64_success:
  "parse_INT64 L d str args = (SLURM_SUCCESS, num, args') \<Longrightarrow>
   parse_INT64 L d' str args = (SLURM_SUCCESS, num, args')"
  by (cases "data_convert_int L str") (auto simp add: parse_INT64_alt split: if_splits)

lemma sint_ucast_32:
  assumes "INT32_MIN \<le> sint (num::u64)" and "sint num \<le> INT32_MAX"
  shows "sint (ucast num :: u32) = sint num"
proof -
  have "(ucast num :: u32) = scast num"
    by (rule bit_word_eqI) (auto simp add: bit_simps)
  then have "sint (ucast num :: u32) = signed_take_bit 31 (sint num)"
    by (simp add: signed_scast_eq)
  also have "\<dots> = sint num"
    using assms by (simp add: signed_take_bit_int_eq_self INT32_MIN_def INT32_MAX_def)
  finally show ?thesis .
qed

lemma parse_INT32_DInt:
  "parse_INT32 L dst (DInt n) args =
     (if sint n < INT32_MIN \<or> INT32_MAX < sint n then (EINVAL, dst, args)
      else (SLURM_SUCCESS, ucast n, args))"
  by (auto simp add: parse_INT32_def parse_INT64_def)

text \<open>
  C6. The signed 32-bit parser runs the signed 64-bit parser first and then checks the
  number against the range from INT32_MIN to INT32_MAX. Whenever the 64-bit parse of the
  input succeeds with a number outside that range, the 32-bit parse returns EINVAL (the
  INVALID_VALUE kind) and its destination is what it was before; with a number inside
  the range it succeeds and stores that number, with the same signed value.
\<close>

theorem parse_INT32_range_check:
  assumes "parse_INT64 L d0 str args = (SLURM_SUCCESS, num, args')"
  shows "parse_INT32 L dst str args =
           (if sint num < INT32_MIN \<or> INT32_MAX < sint num then (EINVAL, dst, args')
            else (SLURM_SUCCESS, ucast num, args')) \<and>
         (if sint num < INT32_MIN \<or> INT32_MAX < sint num then True
          else sint (ucast num :: u32) = sint num)"
  using parse_INT64_success [OF assms, of 0] sint_ucast_32 [of num]
  by (auto simp add: parse_INT32_def)

theorem parse_INT32_range_check_witness:
  "parse_INT64 lib_plain 0 (DInt 2147483648) args_default = (SLURM_SUCCESS, 2147483648, args_default) \<and>
   parse_INT32 lib_plain 7 (DInt 2147483648) args_default = (EINVAL, 7, args_default)"
proof -
  have h: "parse_INT64 lib_plain 0 (DInt 2147483648) args_default = (SLURM_SUCCESS, 2147483648, args_default)"
    by (simp add: parse_INT64_def)
  show ?thesis
    using h parse_INT32_range_check [OF h, of 7]
    by (simp add: INT32_MIN_def INT32_MAX_def)
qed

section \<open>Nice values\<close>

text \<open>
  C4. On an integer node \<open>n\<close> the NICE parser fails with INVALID_NICE, records that error
  and leaves its destination alone exactly when the magnitude of \<open>n\<close> exceeds
  NICE_OFFSET - 3 = 2147483645; otherwise it succeeds and stores \<open>n + NICE_OFFSET\<close>. So
  the input -10 stores NICE_OFFSET - 10 and the input 2147483646 fails with INVALID_NICE.
  Dumping the native value NICE_OFFSET emits the integer 0.
\<close>

theorem parse_NICE_cases:
  "parse_NICE L dst (DInt n) args =
     (if \<bar>sint n\<bar> > uint NICE_OFFSET - 3 then
        (ESLURM_INVALID_NICE, dst,
         args\<lparr>errors := errors args @ [(ESLURM_INVALID_NICE, ''Nice value not within +/- 2147483645'')]\<rparr>)
      else (SLURM_SUCCESS, ucast n + NICE_OFFSET, args)) \<and>
   parse_NICE L dst (DInt (- 10)) args = (SLURM_SUCCESS, NICE_OFFSET - 10, args) \<and>
   parse_NICE L dst (DInt 2147483646) args =
     (ESLURM_INVALID_NICE, dst,
      args\<lparr>errors := errors args @ [(ESLURM_INVALID_NICE, ''Nice value not within +/- 2147483645'')]\<rparr>) \<and>
   dump_NICE NICE_OFFSET node args = (SLURM_SUCCESS, DInt 0, args) \<and>
   uint NICE_OFFSET - 3 = 2147483645"
proof -
  have a: "parse_NICE L dst (DInt n) args =
     (if \<bar>sint n\<bar> > uint NICE_OFFSET - 3 then
        (ESLURM_INVALID_NICE, dst,
         args\<lparr>errors := errors args @ [(ESLURM_INVALID_NICE, ''Nice value not within +/- 2147483645'')]\<rparr>)
      else (SLURM_SUCCESS, ucast n + NICE_OFFSET, args))" for n
  proof (cases "sint n < INT32_MIN \<or> INT32_MAX < sint n")
    case True
    then show ?thesis
      by (auto simp add: parse_NICE_def parse_INT32_DInt on_error_def NICE_OFFSET_def
          INT32_MIN_def INT32_MAX_def)
  next
    case False
    then have "sint (ucast n :: u32) = sint n"
      using sint_ucast_32 [of n] by simp
    with False show ?thesis
      by (simp add: parse_NICE_def parse_INT32_DInt on_error_def NICE_OFFSET_def)
  qed
  have b: "parse_NICE L dst (DInt (- 10)) args = (SLURM_SUCCESS, NICE_OFFSET - 10, args)"
    by (simp add: a NICE_OFFSET_def)
  have c: "parse_NICE L dst (DInt 2147483646) args =
     (ESLURM_INVALID_NICE, dst,
      args\<lparr>errors := errors args @ [(ESLURM_INVALID_NICE, ''Nice value not within +/- 2147483645'')]\<rparr>)"
    by (simp add: a NICE_OFFSET_def)
  have d: "dump_NICE NICE_OFFSET node args = (SLURM_SUCCESS, DInt 0, args)"
    by (simp add: dump_NICE_def)
  show ?thesis using a b c d by (simp add: NICE_OFFSET_def)
qed

section \<open>Core and thread specialization share one field\<close>

lemma CORE_SPEC_THREAD_exp: "CORE_SPEC_THREAD = 2 ^ 15"
  by (simp add: CORE_SPEC_THREAD_def)

lemma and_CORE_SPEC_THREAD_iff: "(x AND CORE_SPEC_THREAD = 0) = (\<not> bit x 15)"
  unfolding CORE_SPEC_THREAD_exp
  by (rule and_exp_eq_0_iff_not_bit)

lemma or_CORE_SPEC_THREAD: "(x OR CORE_SPEC_THREAD) AND CORE_SPEC_THREAD = CORE_SPEC_THREAD"
  by (rule bit_word_eqI) (auto simp add: bit_simps)

lemma small_spec_bit_clear:
  assumes "0 < sint (n::u64)" and "sint n < 32768"
  shows "(ucast n :: u16) AND CORE_SPEC_THREAD = 0"
proof -
  have "sint n div 2 ^ 15 = 0" using assms by simp
  then have "\<not> bit (sint n) 15" by (simp add: bit_iff_odd)
  then have "\<not> bit n 15" by (simp add: bit_sint_iff)
  then have "\<not> bit (ucast n :: u16) 15" by (simp add: bit_simps)
  then show ?thesis by (simp add: and_CORE_SPEC_THREAD_iff)
qed

lemma parse_THREAD_SPEC_alt:
  "parse_THREAD_SPEC L spec src args =
     (case data_convert_int L src of
        DInt n \<Rightarrow>
          if 0 < sint n \<and> sint n < 32768 then (SLURM_SUCCESS, ucast n OR CORE_SPEC_THREAD, args)
          else (ESLURM_BAD_THREAD_PER_CORE, spec, snd (snd (parse_THREAD_SPEC L spec src args)))
      | _ \<Rightarrow> (ESLURM_DATA_CONV_FAILED, spec, snd (snd (parse_THREAD_SPEC L spec src args))))"
  by (cases "data_convert_int L src")
     (auto simp add: parse_THREAD_SPEC_def parse_error_def on_error_def CORE_SPEC_THREAD_def)

lemma parse_CORE_SPEC_alt:
  "parse_CORE_SPEC L spec src args =
     (case data_convert_int L src of
        DInt n \<Rightarrow>
          if 0 < sint n \<and> sint n < 32768 then (SLURM_SUCCESS, ucast n, args)
          else (ESLURM_INVALID_CORE_CNT, spec, snd (snd (parse_CORE_SPEC L spec src args)))
      | _ \<Rightarrow> (ESLURM_DATA_CONV_FAILED, spec, snd (snd (parse_CORE_SPEC L spec src args))))"
  by (cases "data_convert_int L src")
     (auto simp add: parse_CORE_SPEC_def parse_error_def on_error_def CORE_SPEC_THREAD_def)

text \<open>
  C7. Core specialization and thread specialization share one 16-bit field, told apart by
  the bit CORE_SPEC_THREAD. Whenever the thread parser succeeds, the value it stores has
  the bit set; whenever the core parser succeeds, the value it stores has the bit clear;
  both succeed on every integer from 1 to CORE_SPEC_THREAD - 1. For every field value with
  the bit set the core dumper emits the integer 0, and for every field value with the bit
  clear the thread dumper emits the integer 0.
\<close>

theorem spec_thread_bit:
  "(parse_THREAD_SPEC L spec src args = (SLURM_SUCCESS, thread_spec, args') \<longrightarrow>
      thread_spec AND CORE_SPEC_THREAD = CORE_SPEC_THREAD) \<and>
   (parse_CORE_SPEC L spec src args = (SLURM_SUCCESS, core_spec, args') \<longrightarrow>
      core_spec AND CORE_SPEC_THREAD = 0) \<and>
   (thread_mem AND CORE_SPEC_THREAD \<noteq> 0 \<longrightarrow>
      dump_CORE_SPEC thread_mem dst args = (SLURM_SUCCESS, DInt 0, args)) \<and>
   (core_mem AND CORE_SPEC_THREAD = 0 \<longrightarrow>
      dump_THREAD_SPEC core_mem dst args = (SLURM_SUCCESS, DInt 0, args)) \<and>
   (0 < sint n \<and> sint n < uint CORE_SPEC_THREAD \<longrightarrow>
      parse_THREAD_SPEC L spec (DInt n) args = (SLURM_SUCCESS, ucast n OR CORE_SPEC_THREAD, args) \<and>
      parse_CORE_SPEC L spec (DInt n) args = (SLURM_SUCCESS, ucast n, args))"
proof -
  have t: "thread_spec AND CORE_SPEC_THREAD = CORE_SPEC_THREAD"
    if "parse_THREAD_SPEC L spec src args = (SLURM_SUCCESS, thread_spec, args')"
    using that or_CORE_SPEC_THREAD
    by (subst (asm) parse_THREAD_SPEC_alt) (auto split: data_t.splits if_splits)
  have c: "core_spec AND CORE_SPEC_THREAD = 0"
    if "parse_CORE_SPEC L spec src args = (SLURM_SUCCESS, core_spec, args')"
    using that small_spec_bit_clear
    by (subst (asm) parse_CORE_SPEC_alt) (auto split: data_t.splits if_splits)
  have d: "dump_CORE_SPEC thread_mem dst args = (SLURM_SUCCESS, DInt 0, args)"
    if "thread_mem AND CORE_SPEC_THREAD \<noteq> 0"
    using that by (simp add: dump_CORE_SPEC_def)
  have e: "dump_THREAD_SPEC core_mem dst args = (SLURM_SUCCESS, DInt 0, args)"
    if "core_mem AND CORE_SPEC_THREAD = 0"
    using that by (simp add: dump_THREAD_SPEC_def)
  have f: "parse_THREAD_SPEC L spec (DInt n) args = (SLURM_SUCCESS, ucast n OR CORE_SPEC_THREAD, args) \<and>
      parse_CORE_SPEC L spec (DInt n) args = (SLURM_SUCCESS, ucast n, args)"
    if "0 < sint n \<and> sint n < uint CORE_SPEC_THREAD"
    using that by (simp add: parse_THREAD_SPEC_def parse_CORE_SPEC_def CORE_SPEC_THREAD_def)
  show ?thesis using t c d e f by blast
qed

theorem spec_thread_bit_witness:
  "parse_THREAD_SPEC lib_plain 0 (DInt 2) args_default = (SLURM_SUCCESS, 0x8002, args_default) \<and>
   (0x8002 :: u16) AND CORE_SPEC_THREAD = CORE_SPEC_THREAD \<and>
   parse_CORE_SPEC lib_plain 0 (DInt 2) args_default = (SLURM_SUCCESS, 2, args_default) \<and>
   (2 :: u16) AND CORE_SPEC_THREAD = 0 \<and>
   dump_CORE_SPEC 0x8002 (DNull :: unit data_t) args_default = (SLURM_SUCCESS, DInt 0, args_default) \<and>
   dump_THREAD_SPEC 2 (DNull :: unit data_t) args_default = (SLURM_SUCCESS, DInt 0, args_default)"
proof -
  have h1: "parse_THREAD_SPEC lib_plain 0 (DInt 2) args_default = (SLURM_SUCCESS, 0x8002, args_default)"
    by (simp add: parse_THREAD_SPEC_def CORE_SPEC_THREAD_def)
  have h2: "parse_CORE_SPEC lib_plain 0 (DInt 2) args_default = (SLURM_SUCCESS, 2, args_default)"
    by (simp add: parse_CORE_SPEC_def CORE_SPEC_THREAD_def)
  have h3: "(0x8002 :: u16) AND CORE_SPEC_THREAD \<noteq> 0"
    by (simp add: CORE_SPEC_THREAD_def)
  have h4: "(2 :: u16) AND CORE_SPEC_THREAD = 0"
    by (simp add: CORE_SPEC_THREAD_def)
  show ?thesis
    using h1 h2 h3 h4
      spec_thread_bit [where L = lib_plain and spec = 0 and src = "DInt 2" and args = args_default
        and thread_spec = "0x8002" and args' = args_default and core_spec = 2
        and thread_mem = "0x8002" and core_mem = 2 and dst = DNull and n = 2]
    by blast
qed

section \<open>Dumping a QoS id\<close>

lemma find_qos_id: "find_qos l q = Some r \<Longrightarrow> rec_id r = q"
  unfolding find_qos_def by (induction l) (auto split: if_splits)

lemma dump_QOS_ID_found:
  assumes "find_qos (qos_list args) qos_id = Some r" and "qos_id \<noteq> 0"
  shows "snd (snd (dump_QOS_ID qos_id dst args)) = args"
proof -
  have "rec_id r \<noteq> 0" using assms find_qos_id by blast
  then show ?thesis
    using assms
    by (cases "rec_name r"; cases "the (rec_name r)")
       (simp_all add: dump_QOS_ID_def dump_QOS_ID_with_def)
qed

lemma dump_QOS_ID_with_unset:
  "qos_id = 0 \<or> qos_id = INFINITE \<Longrightarrow>
   dump_QOS_ID_with resolver qos_id dst args =
     (SLURM_SUCCESS, (if is_complex_mode args then dst else DString []), args)"
  by (simp add: dump_QOS_ID_with_def)

lemma dump_QOS_ID_unknown:
  "qos_id \<noteq> 0 \<and> qos_id \<noteq> INFINITE \<and> \<not> is_complex_mode args \<and>
     find_qos (qos_list args) qos_id = None \<Longrightarrow>
   dump_QOS_ID qos_id dst args =
     (SLURM_SUCCESS, DString ''Unknown'',
      args\<lparr>warnings := warnings args @ [''Unknown QOS with id#%u. Unable to dump QOS.'']\<rparr>)"
  by (simp add: dump_QOS_ID_def dump_QOS_ID_with_def on_warn_def)

lemma dump_QOS_ID_warns_only:
  assumes w: "warnings (snd (snd (dump_QOS_ID qos_id dst args))) \<noteq> warnings args"
  shows "qos_id \<noteq> 0 \<and> qos_id \<noteq> INFINITE \<and> \<not> is_complex_mode args \<and>
      find_qos (qos_list args) qos_id = None"
proof -
  have 1: "\<not> (qos_id = 0 \<or> qos_id = INFINITE)"
  proof
    assume "qos_id = 0 \<or> qos_id = INFINITE"
    from dump_QOS_ID_with_unset [OF this, of find_qos dst args]
    have "snd (snd (dump_QOS_ID qos_id dst args)) = args"
      by (simp add: dump_QOS_ID_def)
    with w show False by simp
  qed
  have 2: "find_qos (qos_list args) qos_id = None"
  proof (cases "find_qos (qos_list args) qos_id")
    case None then show ?thesis .
  next
    case (Some r)
    from 1 have "qos_id \<noteq> 0" by simp
    from dump_QOS_ID_found [OF Some this, of dst] w show ?thesis by simp
  qed
  have 3: "\<not> is_complex_mode args"
  proof
    assume "is_complex_mode args"
    with 1 2 have "snd (snd (dump_QOS_ID qos_id dst args)) = args"
      by (simp add: dump_QOS_ID_def dump_QOS_ID_with_def)
    with w show False by simp
  qed
  from 1 2 3 show ?thesis by simp
qed


text \<open>
  C10. Dumping a QoS id that is 0 or INFINITE returns success with the ambient arguments
  as they were, so without a warning; the node becomes the empty string in default mode
  and stays as it was in COMPLEX_VALUES mode. This holds for every resolver put in place
  of the list lookup: the lookup is not consulted. A warning is recorded only when the id
  is neither 0 nor INFINITE, the mode is the default one and the lookup finds no QoS; and
  in exactly that case the node becomes "Unknown" and the warning is recorded.
\<close>

theorem dump_QOS_ID_unset:
  "(qos_id = 0 \<or> qos_id = INFINITE \<longrightarrow>
      dump_QOS_ID_with resolver qos_id dst args =
        (SLURM_SUCCESS, (if is_complex_mode args then dst else DString []), args)) \<and>
   (warnings (snd (snd (dump_QOS_ID qos_id dst args))) \<noteq> warnings args \<longrightarrow>
      qos_id \<noteq> 0 \<and> qos_id \<noteq> INFINITE \<and> \<not> is_complex_mode args \<and>
      find_qos (qos_list args) qos_id = None) \<and>
   (qos_id \<noteq> 0 \<and> qos_id \<noteq> INFINITE \<and> \<not> is_complex_mode args \<and>
    find_qos (qos_list args) qos_id = None \<longrightarrow>
      dump_QOS_ID qos_id dst args =
        (SLURM_SUCCESS, DString ''Unknown'',
         args\<lparr>warnings := warnings args @ [''Unknown QOS with id#%u. Unable to dump QOS.'']\<rparr>))"
  apply (rule conjI)
   apply (rule impI)
   apply (erule dump_QOS_ID_with_unset)
  apply (rule conjI)
   apply (rule impI)
   apply (erule dump_QOS_ID_warns_only)
  apply (rule impI)
  apply (erule dump_QOS_ID_unknown)
  done

theorem dump_QOS_ID_unset_witness:
  "dump_QOS_ID_with (\<lambda>l q. None) INFINITE (DNull :: unit data_t) args_default =
     (SLURM_SUCCESS, DString [], args_default) \<and>
   find_qos (qos_list args_default) 5 = None \<and>
   dump_QOS_ID 5 (DNull :: unit data_t) args_default =
     (SLURM_SUCCESS, DString ''Unknown'',
      args_default\<lparr>warnings := warnings args_default @ [''Unknown QOS with id#%u. Unable to dump QOS.'']\<rparr>)"
proof -
  have h1: "(5 :: u32) \<noteq> 0 \<and> 5 \<noteq> INFINITE \<and> \<not> is_complex_mode args_default \<and>
    find_qos (qos_list args_default) 5 = None"
    by (simp add: INFINITE_def is_complex_mode_def args_default_def find_qos_def)
  have h2: "INFINITE = 0 \<or> INFINITE = INFINITE"
    by simp
  have h3: "\<not> is_complex_mode args_default"
    by (simp add: is_complex_mode_def args_default_def)
  have "dump_QOS_ID_with (\<lambda>l q. None) INFINITE (DNull :: unit data_t) args_default =
     (SLURM_SUCCESS, (if is_complex_mode args_default then DNull else DString []), args_default)"
    by (rule dump_QOS_ID_unset [where qos_id = INFINITE and resolver = "\<lambda>l q. None"
        and dst = "DNull :: unit data_t" and args = args_default, THEN conjunct1, THEN mp, OF h2])
  then have c1: "dump_QOS_ID_with (\<lambda>l q. None) INFINITE (DNull :: unit data_t) args_default =
     (SLURM_SUCCESS, DString [], args_default)"
    using h3 by simp
  have c2: "dump_QOS_ID 5 (DNull :: unit data_t) args_default =
     (SLURM_SUCCESS, DString ''Unknown'',
      args_default\<lparr>warnings := warnings args_default @ [''Unknown QOS with id#%u. Unable to dump QOS.'']\<rparr>)"
    by (rule dump_QOS_ID_unset [where qos_id = 5 and dst = "DNull :: unit data_t"
        and args = args_default, THEN conjunct2, THEN conjunct2, THEN mp, OF h1])
  have h4: "warnings (snd (snd (dump_QOS_ID 5 (DNull :: unit data_t) args_default))) \<noteq> warnings args_default"
    by (simp add: c2)
  have "(5 :: u32) \<noteq> 0 \<and> 5 \<noteq> INFINITE \<and> \<not> is_complex_mode args_default \<and>
    find_qos (qos_list args_default) 5 = None"
    by (rule dump_QOS_ID_unset [where qos_id = 5 and dst = "DNull :: unit data_t"
        and args = args_default, THEN conjunct2, THEN conjunct1, THEN mp, OF h4])
  then have c3: "find_qos (qos_list args_default) 5 = None" by simp
  from c1 c3 c2 show ?thesis by (intro conjI)
qed

section \<open>The purge sweep is not rate-limited\<close>

lemma purge_example_first:
  "purge_bb_rec (\<lambda>j. False) 6 1000 purge_example =
     \<lparr>time_last_purge = 0, bb_hash = [bb_rec 2 6] # replicate 99 []\<rparr>"
  by (simp add: purge_bb_rec_def purge_example_def BB_HASH_SIZE_def bb_rec_def)

lemma purge_example_second:
  "purge_bb_rec (\<lambda>j. False) 6 1001 \<lparr>time_last_purge = 0, bb_hash = [bb_rec 2 6] # replicate 99 []\<rparr> =
     \<lparr>time_last_purge = 0, bb_hash = [] # replicate 99 []\<rparr>"
  by (simp add: purge_bb_rec_def BB_HASH_SIZE_def bb_rec_def)

text \<open>
  C8. The claim is that of two invocations of the purge routine less than 60 seconds
  apart the second does no purge work. The routine compares the current time with
  \<^verbatim>\<open>time_last_purge\<close> but never assigns that variable: it keeps its value across every
  call. On the example table (BB_HASH_SIZE buckets, two purgeable records in bucket 0, no
  job known any more) the call at time 1000 unlinks the record of job 1 and the call one
  second later, at time 1001, sweeps again and unlinks the record of job 2.
\<close>

theorem purge_runs_twice_within_a_minute:
  "length (bb_hash purge_example) = BB_HASH_SIZE \<and>
   bb_hash (purge_bb_rec (\<lambda>j. False) 6 1000 purge_example) = [bb_rec 2 6] # replicate 99 [] \<and>
   bb_hash (purge_bb_rec (\<lambda>j. False) 6 1001 (purge_bb_rec (\<lambda>j. False) 6 1000 purge_example))
     = [] # replicate 99 [] \<and>
   time_last_purge (purge_bb_rec find_job_record staged_out now st) = time_last_purge st"
proof -
  have a: "length (bb_hash purge_example) = BB_HASH_SIZE"
    by (simp add: purge_example_def BB_HASH_SIZE_def)
  have d: "time_last_purge (purge_bb_rec find_job_record staged_out now st) = time_last_purge st"
    by (simp add: purge_bb_rec_def)
  show ?thesis using a d by (simp add: purge_example_first purge_example_second)
qed

section \<open>Round trips of the NO_VAL-wrapped numbers\<close>

lemma dump_no_val_struct:
  assumes "\<And>n d a. dump_number n d a = (SLURM_SUCCESS, f n, a)"
  shows "dump_array L (no_val_struct parse_number dump_number) s dst args =
     (SLURM_SUCCESS,
      DDict [(''set'', DBool (set_flag s)), (''infinite'', DBool (infinite_flag s)),
             (''number'', f (number s))],
      args)"
  by (simp add: dump_array_def no_val_struct_def dump_BOOL_def assms)

lemma parse_no_val_struct:
  assumes "parse_number L 0 v args = (SLURM_SUCCESS, n, args)"
  shows "parse_array L (no_val_struct parse_number dump_number) no_val_zero
           (DDict [(''set'', DBool b1), (''infinite'', DBool b2), (''number'', v)]) args =
     (SLURM_SUCCESS, \<lparr>set_flag = b1, infinite_flag = b2, number = n\<rparr>, args)"
  by (simp add: parse_array_def no_val_struct_def parse_BOOL_def assms no_val_zero_def)

lemma dump_UINT64_NO_VAL_default:
  assumes "\<not> is_complex_mode args"
  shows "dump_UINT64_NO_VAL L v dst args =
     (SLURM_SUCCESS,
      DDict [(''set'', DBool (v \<noteq> INFINITE64 \<and> v \<noteq> NO_VAL64)),
             (''infinite'', DBool (v = INFINITE64)),
             (''number'', DInt (if v = INFINITE64 \<or> v = NO_VAL64 then 0 else v))],
      args)"
proof -
  have d: "dump_UINT64 n d a =
     (SLURM_SUCCESS, (if n = NO_VAL64 \<or> n = INFINITE64 then DNull else DInt n), a)"
    for n and d :: "'a data_t" and a
    by (simp add: dump_UINT64_def)
  show ?thesis
    using assms
    by (simp add: dump_UINT64_NO_VAL_def PARSER_ARRAY_UINT64_NO_VAL_STRUCT_def
        dump_no_val_struct [of dump_UINT64, OF d] no_val_zero_def NO_VAL64_def INFINITE64_def)
qed

lemma parse_UINT64_NO_VAL_dict:
  "parse_UINT64_NO_VAL L d
     (DDict [(''set'', DBool b1), (''infinite'', DBool b2), (''number'', DInt n)]) args =
     (SLURM_SUCCESS, (if b2 then INFINITE64 else if \<not> b1 then NO_VAL64 else n), args)"
proof -
  have p: "parse_UINT64 L 0 (DInt n) args = (SLURM_SUCCESS, n, args)"
    by (simp add: parse_UINT64_def)
  show ?thesis
    by (simp add: parse_UINT64_NO_VAL_def PARSER_ARRAY_UINT64_NO_VAL_STRUCT_def
        parse_no_val_struct [of parse_UINT64, OF p] no_val_struct_value_def)
qed



































section \<open>Memory per CPU in a job record\<close>

lemma dump_req_mem:
  assumes "\<not> is_complex_mode args"
  shows "dump_array L PARSER_ARRAY_JOB_req_mem (MEM_PER_CPU OR 4096) node args =
     (SLURM_SUCCESS,
      DDict [(''required'',
              DDict [(''memory_per_cpu'',
                      DDict [(''set'', DBool True), (''infinite'', DBool False),
                             (''number'', DInt 4096)]),
                     (''memory_per_node'',
                      DDict [(''set'', DBool False), (''infinite'', DBool False),
                             (''number'', DInt 0)])])],
      args)"
proof -
  have c: "dump_MEM_PER_CPUS L (MEM_PER_CPU OR 4096) d args =
     (SLURM_SUCCESS,
      DDict [(''set'', DBool True), (''infinite'', DBool False), (''number'', DInt 4096)], args)"
    for d
    using assms
    by (simp add: dump_MEM_PER_CPUS_def MEM_PER_CPU_def dump_UINT64_NO_VAL_default
        INFINITE64_def NO_VAL64_def)
  have n: "dump_MEM_PER_NODE L (MEM_PER_CPU OR 4096) d args =
     (SLURM_SUCCESS,
      DDict [(''set'', DBool False), (''infinite'', DBool False), (''number'', DInt 0)], args)"
    for d
    using assms
    by (simp add: dump_MEM_PER_NODE_def MEM_PER_CPU_def dump_UINT64_NO_VAL_default
        INFINITE64_def NO_VAL64_def)
  show ?thesis
    by (simp add: dump_array_def PARSER_ARRAY_JOB_req_mem_def c n)
qed

lemma parse_MEM_PER_CPUS_4096:
  "parse_MEM_PER_CPUS L mem
     (DDict [(''set'', DBool True), (''infinite'', DBool False), (''number'', DInt 4096)]) args =
     (SLURM_SUCCESS, MEM_PER_CPU OR 4096, args)"
  by (simp add: parse_MEM_PER_CPUS_def parse_UINT64_NO_VAL_dict mem_value_def
      NO_VAL64_def INFINITE64_def MEM_PER_CPU_def)

lemma parse_MEM_PER_NODE_unset:
  "parse_MEM_PER_NODE L mem
     (DDict [(''set'', DBool False), (''infinite'', DBool False), (''number'', DInt 0)]) args =
     (SLURM_SUCCESS, NO_VAL64, args)"
  by (simp add: parse_MEM_PER_NODE_def parse_UINT64_NO_VAL_dict mem_value_def)

text \<open>
  C2, as amended. In default mode, dumping the memory field MEM_PER_CPU | 4096 of a job
  record produces memory_per_cpu = {set: true, infinite: false, number: 4096} and, under
  the key memory_per_node, the unset form {set: false, infinite: false, number: 0}: the
  key of the inactive variant is present. Parsing a dictionary that holds the
  memory_per_cpu entry alone yields MEM_PER_CPU | 4096.
\<close>

theorem req_mem_per_cpu_dump_parse:
  "(\<not> is_complex_mode args \<longrightarrow>
      dump_array L PARSER_ARRAY_JOB_req_mem (MEM_PER_CPU OR 4096) node args =
        (SLURM_SUCCESS,
         DDict [(''required'',
                 DDict [(''memory_per_cpu'',
                         DDict [(''set'', DBool True), (''infinite'', DBool False),
                                (''number'', DInt 4096)]),
                        (''memory_per_node'',
                         DDict [(''set'', DBool False), (''infinite'', DBool False),
                                (''number'', DInt 0)])])],
         args)) \<and>
   parse_array L PARSER_ARRAY_JOB_req_mem mem
     (DDict [(''required'',
              DDict [(''memory_per_cpu'',
                      DDict [(''set'', DBool True), (''infinite'', DBool False),
                             (''number'', DInt 4096)])])]) args =
     (SLURM_SUCCESS, MEM_PER_CPU OR 4096, args)"
proof -
  have p: "parse_array L PARSER_ARRAY_JOB_req_mem mem
     (DDict [(''required'',
              DDict [(''memory_per_cpu'',
                      DDict [(''set'', DBool True), (''infinite'', DBool False),
                             (''number'', DInt 4096)])])]) args =
     (SLURM_SUCCESS, MEM_PER_CPU OR 4096, args)"
    by (simp add: parse_array_def PARSER_ARRAY_JOB_req_mem_def parse_MEM_PER_CPUS_4096)
  show ?thesis
    apply (rule conjI)
     apply (rule impI)
     apply (erule dump_req_mem)
    apply (rule p)
    done
qed

theorem req_mem_per_cpu_dump_parse_witness:
  "\<not> is_complex_mode args_default \<and>
   dump_array lib_plain PARSER_ARRAY_JOB_req_mem (MEM_PER_CPU OR 4096) DNull args_default =
     (SLURM_SUCCESS,
      DDict [(''required'',
              DDict [(''memory_per_cpu'',
                      DDict [(''set'', DBool True), (''infinite'', DBool False),
                             (''number'', DInt 4096)]),
                     (''memory_per_node'',
                      DDict [(''set'', DBool False), (''infinite'', DBool False),
                             (''number'', DInt 0)])])],
      args_default)"
proof -
  have h: "\<not> is_complex_mode args_default"
    by (simp add: is_complex_mode_def args_default_def)
  from h req_mem_per_cpu_dump_parse [where L = lib_plain and args = args_default and node = DNull,
      THEN conjunct1, THEN mp, OF h]
  show ?thesis by (rule conjI)
qed

text \<open>
  The claim as stated fails: the dumped dictionary has the key memory_per_node, and
  parsing the dumped dictionary back, field by field in the order of the table, ends with
  the unset memory_per_node entry and stores NO_VAL64.
\<close>

theorem req_mem_per_node_key_counterexample:
  "data_resolve_dict_path [''required'', ''memory_per_node'']
     (fst (snd (dump_array lib_plain PARSER_ARRAY_JOB_req_mem (MEM_PER_CPU OR 4096) DNull args_default)))
     = Some (DDict [(''set'', DBool False), (''infinite'', DBool False), (''number'', DInt 0)]) \<and>
   parse_array lib_plain PARSER_ARRAY_JOB_req_mem 0
     (fst (snd (dump_array lib_plain PARSER_ARRAY_JOB_req_mem (MEM_PER_CPU OR 4096) DNull args_default)))
     args_default
     = (SLURM_SUCCESS, NO_VAL64, args_default) \<and>
   NO_VAL64 \<noteq> MEM_PER_CPU OR 4096"
proof -
  have h: "\<not> is_complex_mode args_default"
    by (simp add: is_complex_mode_def args_default_def)
  have 1: "NO_VAL64 \<noteq> MEM_PER_CPU OR 4096"
    by (simp add: NO_VAL64_def MEM_PER_CPU_def)
  have 2: "parse_array lib_plain PARSER_ARRAY_JOB_req_mem 0
     (DDict [(''required'',
              DDict [(''memory_per_cpu'',
                      DDict [(''set'', DBool True), (''infinite'', DBool False),
                             (''number'', DInt 4096)]),
                     (''memory_per_node'',
                      DDict [(''set'', DBool False), (''infinite'', DBool False),
                             (''number'', DInt 0)])])]) args_default
     = (SLURM_SUCCESS, NO_VAL64, args_default)"
    by (simp add: parse_array_def PARSER_ARRAY_JOB_req_mem_def
        parse_MEM_PER_CPUS_4096 parse_MEM_PER_NODE_unset)
  show ?thesis
    unfolding dump_req_mem [OF h]
    using 1 2 by simp
qed

end
